theory Spec2Isabelle
  imports Complex_Main "HOL-Library.Char_ord" "HOL-Library.List_Lexorder" "HOL-Library.Multiset"
begin

section \<open>Python values, dictionaries and exceptions\<close>

text \<open>
  The program (\<^verbatim>\<open>app/main.py\<close>) keeps every service definition and every probe result as
  a \<^verbatim>\<open>Dict[str, Any]\<close>. The values that YAML can put into such a dictionary are modelled
  by \<open>pyval\<close>; a finite float is a rational number. A dictionary is an association
  list with distinct keys in insertion order, which is the order Python's \<^verbatim>\<open>dict\<close>
  iterates in. Dictionaries read from YAML are modelled with string keys, the only
  keys the program ever looks up.
\<close>

datatype pyval =
    PNone
  | PBool bool
  | PInt int
  | PFloat rat
  | PStr string
  | PList "pyval list"
  | PDict "(string \<times> pyval) list"

type_synonym pydict = "(string \<times> pyval) list"

text \<open>
  Exceptions carry what \<^verbatim>\<open>str(e)\<close> prints. \<open>RequestError\<close> stands for any
  exception derived from \<^verbatim>\<open>Exception\<close> that \<^verbatim>\<open>client.request\<close> raises (connection refused,
  timeout, DNS failure, invalid URL). \<open>CancelledError\<close> is \<^verbatim>\<open>asyncio.CancelledError\<close>,
  which derives from \<^verbatim>\<open>BaseException\<close> only and is therefore not caught by
  \<^verbatim>\<open>except Exception\<close>.
\<close>

datatype exn =
    FileNotFoundError string
  | YAMLError string
  | KeyError string
  | AttributeError string
  | TypeError string
  | ValueError string
  | RequestError string
  | HTTPException int string
  | CancelledError

fun is_Exception :: "exn \<Rightarrow> bool" where
  "is_Exception CancelledError = False"
| "is_Exception _ = True"

fun exn_str :: "exn \<Rightarrow> string" where
  "exn_str (FileNotFoundError m) = m"
| "exn_str (YAMLError m) = m"
| "exn_str (KeyError k) = [CHR 0x27] @ k @ [CHR 0x27]"
| "exn_str (AttributeError m) = m"
| "exn_str (TypeError m) = m"
| "exn_str (ValueError m) = m"
| "exn_str (RequestError m) = m"
| "exn_str (HTTPException c d) = d"
| "exn_str CancelledError = []"

subsection \<open>Truthiness, equality and conversions\<close>

fun truthy :: "pyval \<Rightarrow> bool" where
  "truthy PNone = False"
| "truthy (PBool b) = b"
| "truthy (PInt i) = (i \<noteq> 0)"
| "truthy (PFloat r) = (r \<noteq> 0)"
| "truthy (PStr s) = (s \<noteq> [])"
| "truthy (PList xs) = (xs \<noteq> [])"
| "truthy (PDict d) = (d \<noteq> [])"

text \<open>\<^verbatim>\<open>a or b\<close>\<close>

definition py_or :: "pyval \<Rightarrow> pyval \<Rightarrow> pyval" where
  "py_or a b = (if truthy a then a else b)"

fun num_of :: "pyval \<Rightarrow> rat option" where
  "num_of (PBool b) = Some (if b then 1 else 0)"
| "num_of (PInt i) = Some (of_int i)"
| "num_of (PFloat r) = Some r"
| "num_of _ = None"

text \<open>
  \<^verbatim>\<open>a == b\<close>: numbers compare by value across \<^verbatim>\<open>bool\<close>, \<^verbatim>\<open>int\<close> and \<^verbatim>\<open>float\<close>,
  a number never equals a non-number. The program only compares an \<^verbatim>\<open>int\<close> or a
  \<^verbatim>\<open>str\<close> with a value, where this is Python's result.
\<close>

definition py_eq :: "pyval \<Rightarrow> pyval \<Rightarrow> bool" where
  "py_eq a b =
     (case (num_of a, num_of b) of
        (Some x, Some y) \<Rightarrow> x = y
      | (None, None) \<Rightarrow> a = b
      | _ \<Rightarrow> False)"

text \<open>\<^verbatim>\<open>int(x)\<close> on a float truncates towards zero.\<close>

definition py_int :: "rat \<Rightarrow> int" where
  "py_int x = (if 0 \<le> x then \<lfloor>x\<rfloor> else \<lceil>x\<rceil>)"

fun type_name :: "pyval \<Rightarrow> string" where
  "type_name PNone = ''NoneType''"
| "type_name (PBool b) = ''bool''"
| "type_name (PInt i) = ''int''"
| "type_name (PFloat r) = ''float''"
| "type_name (PStr s) = ''str''"
| "type_name (PList xs) = ''list''"
| "type_name (PDict d) = ''dict''"

definition no_attribute :: "pyval \<Rightarrow> string \<Rightarrow> exn" where
  "no_attribute v a =
     AttributeError ([CHR 0x27] @ type_name v @ [CHR 0x27] @ '' object has no attribute ''
                     @ [CHR 0x27] @ a @ [CHR 0x27])"

definition upper_char :: "char \<Rightarrow> char" where
  "upper_char c =
     (let n = (of_char c :: nat) in if 97 \<le> n \<and> n \<le> 122 then char_of (n - 32) else c)"

text \<open>\<^verbatim>\<open>v.upper()\<close>, on the ASCII letters; a value that is not a string has no such method.\<close>

definition upper :: "pyval \<Rightarrow> exn + string" where
  "upper v = (case v of PStr s \<Rightarrow> Inr (map upper_char s) | _ \<Rightarrow> Inl (no_attribute v ''upper''))"

subsection \<open>Dictionary operations\<close>

text \<open>\<^verbatim>\<open>d.get(k)\<close>, \<^verbatim>\<open>d.get(k, default)\<close> and \<^verbatim>\<open>d[k]\<close>\<close>

definition dict_get :: "pydict \<Rightarrow> string \<Rightarrow> pyval" where
  "dict_get d k = (case map_of d k of None \<Rightarrow> PNone | Some v \<Rightarrow> v)"

definition dict_get_or :: "pydict \<Rightarrow> string \<Rightarrow> pyval \<Rightarrow> pyval" where
  "dict_get_or d k dflt = (case map_of d k of None \<Rightarrow> dflt | Some v \<Rightarrow> v)"

definition getitem :: "pydict \<Rightarrow> string \<Rightarrow> exn + pyval" where
  "getitem d k = (case map_of d k of None \<Rightarrow> Inl (KeyError k) | Some v \<Rightarrow> Inr v)"

text \<open>
  \<^verbatim>\<open>d[k] = v\<close>: an existing key keeps its position, a new key goes to the end.
\<close>

fun setitem :: "('k \<times> 'v) list \<Rightarrow> 'k \<Rightarrow> 'v \<Rightarrow> ('k \<times> 'v) list" where
  "setitem [] k v = [(k, v)]"
| "setitem ((k', v') # d) k v = (if k' = k then (k, v) # d else (k', v') # setitem d k v)"

text \<open>\<^verbatim>\<open>d.setdefault(k, v)\<close>: only an absent key is set.\<close>

definition setdefault :: "pydict \<Rightarrow> string \<Rightarrow> pyval \<Rightarrow> pydict" where
  "setdefault d k v = (case map_of d k of None \<Rightarrow> d @ [(k, v)] | Some _ \<Rightarrow> d)"

text \<open>\<^verbatim>\<open>d.update(other)\<close>\<close>

fun dict_update :: "('k \<times> 'v) list \<Rightarrow> ('k \<times> 'v) list \<Rightarrow> ('k \<times> 'v) list" where
  "dict_update d [] = d"
| "dict_update d ((k, v) # other) = dict_update (setitem d k v) other"

section \<open>Configuration and environment\<close>

text \<open>The module constants read from the process environment at import time.\<close>

record settings =
  CONFIG_PATH :: string
  CHECK_INTERVAL_SECONDS :: int
  GLOBAL_TIMEOUT_SECONDS :: rat
  CONCURRENCY_LIMIT :: int

text \<open>
  The arguments of one \<^verbatim>\<open>client.request\<close> call, and what the call does: it returns a
  response with a status code or it raises. The client is the environment: a function
  from the request to its outcome.
\<close>

record http_request =
  req_method :: pyval
  req_url :: pyval
  req_timeout :: pyval
  req_headers :: pyval
  req_json :: pyval

datatype outcome = Response int | Raises exn

section \<open>Probe executor: \<^verbatim>\<open>check_one\<close>\<close>

text \<open>
  Lines 45--46 and 53--56: the request that the probe issues. \<^verbatim>\<open>svc["url"]\<close> and
  \<^verbatim>\<open>svc["method"].upper()\<close> are evaluated before the \<^verbatim>\<open>try\<close>, so what they raise
  leaves \<^verbatim>\<open>check_one\<close>.
\<close>

definition probe_request :: "settings \<Rightarrow> pydict \<Rightarrow> exn + http_request" where
  "probe_request cfg svc =
     (case getitem svc ''url'' of
        Inl e \<Rightarrow> Inl e
      | Inr url \<Rightarrow>
     (case getitem svc ''method'' of
        Inl e \<Rightarrow> Inl e
      | Inr m \<Rightarrow>
     (case upper m of
        Inl e \<Rightarrow> Inl e
      | Inr method \<Rightarrow>
          Inr \<lparr>req_method = PStr method,
               req_url = url,
               req_timeout = dict_get_or svc ''timeout'' (PFloat (GLOBAL_TIMEOUT_SECONDS cfg)),
               req_headers = py_or (dict_get svc ''headers'') (PDict []),
               req_json = dict_get svc ''body''\<rparr>)))"

text \<open>
  Lines 51--61: the \<^verbatim>\<open>try\<close> block, giving \<^verbatim>\<open>(ok, err, status_code)\<close>. An exception that
  is not an \<^verbatim>\<open>Exception\<close> passes through the handler.
\<close>

definition classify :: "pydict \<Rightarrow> outcome \<Rightarrow> exn + (pyval \<times> pyval \<times> pyval)" where
  "classify svc out =
     (case out of
        Response status_code \<Rightarrow>
          Inr (PBool (py_eq (PInt status_code) (dict_get_or svc ''expect_status'' (PInt 200))),
               PNone, PInt status_code)
      | Raises e \<Rightarrow>
          if is_Exception e then Inr (PBool False, PStr (exn_str e), PNone) else Inl e)"

text \<open>
  The three readings of \<^verbatim>\<open>time.time()\<close> (before the request, after it, and for
  \<^verbatim>\<open>checked_at\<close>) are inputs, in seconds.
\<close>

definition check_one ::
    "settings \<Rightarrow> (http_request \<Rightarrow> outcome) \<Rightarrow> pydict \<Rightarrow> rat \<times> rat \<times> rat \<Rightarrow> exn + pydict" where
  "check_one cfg client svc clock =
     (case probe_request cfg svc of
        Inl e \<Rightarrow> Inl e
      | Inr req \<Rightarrow>
     (case clock of (started, finished, now) \<Rightarrow>
     (case classify svc (client req) of
        Inl e \<Rightarrow> Inl e
      | Inr (ok, err, status_code) \<Rightarrow>
          Inr [(''name'', py_or (dict_get svc ''name'') (req_url req)),
               (''url'', req_url req),
               (''ok'', ok),
               (''status_code'', status_code),
               (''latency_ms'', PInt (py_int ((finished - started) * 1000))),
               (''checked_at'', PInt (py_int now)),
               (''error'', err),
               (''region'', dict_get svc ''region''),
               (''tags'', dict_get_or svc ''tags'' (PList [])),
               (''expect_status'', dict_get_or svc ''expect_status'' (PInt 200))])))"

text \<open>
  A ServiceSpec of the data model: a dictionary with a non-empty string \<^verbatim>\<open>url\<close> and a
  string \<^verbatim>\<open>method\<close>.
\<close>

definition is_ServiceSpec :: "pydict \<Rightarrow> bool" where
  "is_ServiceSpec svc =
     ((case map_of svc ''url'' of Some (PStr u) \<Rightarrow> u \<noteq> [] | _ \<Rightarrow> False) \<and>
      (case map_of svc ''method'' of Some (PStr m) \<Rightarrow> True | _ \<Rightarrow> False))"

section \<open>Configuration loader: \<^verbatim>\<open>load_services\<close>\<close>

text \<open>
  What the loader finds at \<^verbatim>\<open>CONFIG_PATH\<close>: no file, a file that \<^verbatim>\<open>yaml.safe_load\<close>
  rejects (with the parser's message), or a parsed document.
\<close>

datatype config_file = Missing | Malformed string | Parsed pyval

text \<open>The elements a \<^verbatim>\<open>for\<close> loop takes from a value.\<close>

definition py_iter :: "pyval \<Rightarrow> exn + pyval list" where
  "py_iter v =
     (case v of
        PList xs \<Rightarrow> Inr xs
      | PStr s \<Rightarrow> Inr (map (\<lambda>c. PStr [c]) s)
      | PDict d \<Rightarrow> Inr (map (\<lambda>kv. PStr (fst kv)) d)
      | _ \<Rightarrow> Inl (TypeError ([CHR 0x27] @ type_name v @ [CHR 0x27] @ '' object is not iterable'')))"

text \<open>Lines 33--41, on one service record.\<close>

definition apply_defaults :: "settings \<Rightarrow> pydict \<Rightarrow> pydict" where
  "apply_defaults cfg s0 =
     (let s1 = setdefault s0 ''method'' (PStr ''GET'');
          s2 = setdefault s1 ''timeout'' (PFloat (GLOBAL_TIMEOUT_SECONDS cfg));
          s3 = setdefault s2 ''expect_status'' (PInt 200);
          s4 = setdefault s3 ''headers'' (PDict []);
          s5 = setdefault s4 ''body'' PNone;
          s6 = setdefault s5 ''wake_url'' (dict_get s5 ''url'');
          s7 = setdefault s6 ''wake_method'' (PStr ''GET'');
          s8 = setdefault s7 ''wake_body'' PNone
      in setdefault s8 ''wake_headers'' (PDict []))"

text \<open>
  Lines 32--41: the loop. An element that is not a mapping has no \<^verbatim>\<open>setdefault\<close>; the
  first such element raises.
\<close>

fun default_all :: "settings \<Rightarrow> pyval list \<Rightarrow> exn + pydict list" where
  "default_all cfg [] = Inr []"
| "default_all cfg (s # ss) =
     (case s of
        PDict d \<Rightarrow>
          (case default_all cfg ss of
             Inl e \<Rightarrow> Inl e
           | Inr ds \<Rightarrow> Inr (apply_defaults cfg d # ds))
      | _ \<Rightarrow> Inl (no_attribute s ''setdefault''))"

text \<open>
  Lines 26--42. The function returns the list of records. (When \<^verbatim>\<open>services\<close> is an
  empty string or an empty mapping the loop body never runs and Python returns that
  empty value, which every later use iterates like the empty list; the model returns
  the empty list.)
\<close>

definition load_services :: "settings \<Rightarrow> config_file \<Rightarrow> exn + pydict list" where
  "load_services cfg file =
     (case file of
        Missing \<Rightarrow> Inl (FileNotFoundError (''Config not found: '' @ CONFIG_PATH cfg))
      | Malformed m \<Rightarrow> Inl (YAMLError m)
      | Parsed doc \<Rightarrow>
          (case py_or doc (PDict []) of
             PDict data \<Rightarrow>
               (case py_iter (dict_get_or data ''services'' (PList [])) of
                  Inl e \<Rightarrow> Inl e
                | Inr services \<Rightarrow> default_all cfg services)
           | v \<Rightarrow> Inl (no_attribute v ''get'')))"

section \<open>Application state\<close>

text \<open>
  \<^verbatim>\<open>_status\<close> maps a key (a url, or \<^verbatim>\<open>"__error__"\<close> for the sentinel entry) to a result
  dictionary. A key must be hashable; numbers that are equal are the same key.
\<close>

type_synonym store = "(pyval \<times> pydict) list"

definition hashable :: "pyval \<Rightarrow> exn + pyval" where
  "hashable v =
     (case v of
        PList xs \<Rightarrow> Inl (TypeError (''unhashable type: '' @ [CHR 0x27] @ ''list'' @ [CHR 0x27]))
      | PDict d \<Rightarrow> Inl (TypeError (''unhashable type: '' @ [CHR 0x27] @ ''dict'' @ [CHR 0x27]))
      | PBool b \<Rightarrow> Inr (PInt (if b then 1 else 0))
      | PFloat r \<Rightarrow> Inr (if r = of_int \<lfloor>r\<rfloor> then PInt \<lfloor>r\<rfloor> else PFloat r)
      | _ \<Rightarrow> Inr v)"

text \<open>
  The environment of one probe round: what the shared client does for the request of
  task \<open>i\<close>, the clock readings of task \<open>i\<close>, and the order in which the tasks complete.
\<close>

record round_env =
  client :: "nat \<Rightarrow> http_request \<Rightarrow> outcome"
  clock :: "nat \<Rightarrow> rat \<times> rat \<times> rat"
  order :: "nat list"

text \<open>
  The scheduler task \<^verbatim>\<open>app.state.bg_task\<close> is suspended at one of the two \<^verbatim>\<open>await\<close>s of
  \<^verbatim>\<open>background_loop\<close> (line 92, a probe round in flight, with the environment of that
  round; line 97, the interval wait), or it is done, with the exception that ended it
  if any.
\<close>

datatype task = In_round round_env | In_wait | Done "exn option"

record app =
  services :: "pydict list"
  status :: store
  stop_event :: bool
  bg_task :: "task option"

section \<open>Bounded fan-out prober: \<^verbatim>\<open>check_all_once\<close>\<close>

text \<open>
  Lines 84--86: results are stored under their url as the tasks complete; the first
  task that raised re-raises at its \<^verbatim>\<open>await\<close>.
\<close>

fun collect :: "store \<Rightarrow> (exn + pydict) list \<Rightarrow> exn + store" where
  "collect results [] = Inr results"
| "collect results (t # ts) =
     (case t of
        Inl e \<Rightarrow> Inl e
      | Inr r \<Rightarrow>
          (case hashable (dict_get r ''url'') of
             Inl e \<Rightarrow> Inl e
           | Inr k \<Rightarrow> collect (setitem results k r) ts))"

text \<open>
  Lines 76--87, as a function of the environment. \<^verbatim>\<open>asyncio.Semaphore\<close> rejects a negative
  value; with the value \<open>0\<close> no task is ever admitted and the call never returns
  (\<open>None\<close>) unless there is no task.
\<close>

definition check_all_once :: "settings \<Rightarrow> pydict list \<Rightarrow> round_env \<Rightarrow> (exn + store) option" where
  "check_all_once cfg svcs env =
     (if CONCURRENCY_LIMIT cfg < 0 then Some (Inl (ValueError ''Semaphore initial value must be >= 0''))
      else if CONCURRENCY_LIMIT cfg = 0 \<and> svcs \<noteq> [] then None
      else
        let tasks = map (\<lambda>i. check_one cfg (client env i) (svcs ! i) (clock env i)) [0..<length svcs]
        in Some (collect [] (map (\<lambda>i. tasks ! i) (filter (\<lambda>i. i < length tasks) (order env)))))"

subsection \<open>The admission gate\<close>

text \<open>
  Lines 78--83: each task runs \<^verbatim>\<open>async with sem: return await check_one(client, svc)\<close>.
  A task waits for a permit, holds it while its probe runs, and gives it back when
  the probe returns or raises. The scheduler interleaves the tasks; an interleaving is
  a list of events.
\<close>

datatype phase = Waiting | In_flight | Completed

record gate =
  permits :: nat
  phases :: "phase list"

datatype event = Acquire nat | Finish nat "exn + pydict"

text \<open>Lines 78 and 83: the semaphore and one task per service.\<close>

definition launch :: "settings \<Rightarrow> pydict list \<Rightarrow> exn + gate" where
  "launch cfg svcs =
     (if CONCURRENCY_LIMIT cfg < 0 then Inl (ValueError ''Semaphore initial value must be >= 0'')
      else Inr \<lparr>permits = nat (CONCURRENCY_LIMIT cfg), phases = replicate (length svcs) Waiting\<rparr>)"

fun step :: "event \<Rightarrow> gate \<Rightarrow> gate option" where
  "step (Acquire i) g =
     (if i < length (phases g) \<and> phases g ! i = Waiting \<and> 0 < permits g
      then Some (g\<lparr>permits := permits g - 1, phases := (phases g)[i := In_flight]\<rparr>)
      else None)"
| "step (Finish i out) g =
     (if i < length (phases g) \<and> phases g ! i = In_flight
      then Some (g\<lparr>permits := permits g + 1, phases := (phases g)[i := Completed]\<rparr>)
      else None)"

fun run :: "event list \<Rightarrow> gate \<Rightarrow> gate option" where
  "run [] g = Some g"
| "run (ev # evs) g = (case step ev g of None \<Rightarrow> None | Some g' \<Rightarrow> run evs g')"

definition in_flight :: "gate \<Rightarrow> nat" where
  "in_flight g = length (filter (\<lambda>p. p = In_flight) (phases g))"

section \<open>Scheduler loop: \<^verbatim>\<open>background_loop\<close>\<close>

text \<open>
  The environment of one iteration: the round's environment, the reading of
  \<^verbatim>\<open>time.time()\<close> in the handler, and whether the stop event has been set by the time
  the interval wait (lines 96--99) is over.
\<close>

record tick =
  round_env :: round_env
  handler_time :: rat
  stop_set :: bool

definition sentinel :: "string \<Rightarrow> exn \<Rightarrow> rat \<Rightarrow> pydict" where
  "sentinel prefix e now =
     [(''ok'', PBool False), (''error'', PStr (prefix @ exn_str e)), (''checked_at'', PInt (py_int now))]"

text \<open>
  Lines 93--95: what the loop does with the outcome of \<^verbatim>\<open>await check_all_once()\<close>, the
  results or the exception raised at that \<^verbatim>\<open>await\<close>. \<open>Inl\<close>: an exception that
  \<^verbatim>\<open>except Exception\<close> does not catch leaves the loop.
\<close>

definition after_round :: "exn + store \<Rightarrow> rat \<Rightarrow> app \<Rightarrow> exn + app" where
  "after_round out now st =
     (case out of
        Inr results \<Rightarrow> Inr (st\<lparr>status := dict_update (status st) results\<rparr>)
      | Inl e \<Rightarrow>
          if is_Exception e
          then Inr (st\<lparr>status := setitem (status st) (PStr ''__error__'')
                                 (sentinel ''Background loop error: '' e now)\<rparr>)
          else Inl e)"



section \<open>Shutdown: \<^verbatim>\<open>on_shutdown\<close>\<close>

text \<open>
  Line 117, \<^verbatim>\<open>task.cancel()\<close>, with the stop event already set by line 114. The
  cancellation makes the \<^verbatim>\<open>await\<close> at which the task is suspended raise
  \<^verbatim>\<open>CancelledError\<close> (Python 3.8 and later, where it is not an \<^verbatim>\<open>Exception\<close>).

  With a round in flight that \<^verbatim>\<open>await\<close> is line 92, and the loop treats the exception as
  it treats every outcome of the round (\<open>after_round\<close>): what the handler does not catch
  ends the task; had the handler caught it, the wait of line 97 would return at once,
  the event being set, and the loop would end at its test.

  In the interval wait the \<^verbatim>\<open>await\<close> is \<^verbatim>\<open>asyncio.wait_for\<close>, and the interpreter decides:
  up to Python 3.11 \<^verbatim>\<open>wait_for\<close> absorbs a cancellation that arrives when the awaited
  event is already set and returns, so that the loop ends normally; from 3.12 on the
  cancellation is raised and ends the task. The first argument says which. A task
  that is done is not touched.
\<close>

definition cancel_task :: "bool \<Rightarrow> rat \<Rightarrow> app \<Rightarrow> app" where
  "cancel_task absorbed now st =
     (case bg_task st of
        Some (In_round env) \<Rightarrow>
          (case after_round (Inl CancelledError) now st of
             Inl e \<Rightarrow> st\<lparr>bg_task := Some (Done (Some e))\<rparr>
           | Inr st' \<Rightarrow> st'\<lparr>bg_task := Some (Done None)\<rparr>)
      | Some In_wait \<Rightarrow>
          st\<lparr>bg_task := Some (Done (if absorbed then None else Some CancelledError))\<rparr>
      | _ \<Rightarrow> st)"

text \<open>
  Lines 112--121. \<^verbatim>\<open>await task\<close> re-raises the exception that ended the task; the
  handler of line 120 takes an \<^verbatim>\<open>Exception\<close> only. The result is the exception that
  leaves \<^verbatim>\<open>on_shutdown\<close>, if any, and the state.
\<close>

definition on_shutdown :: "bool \<Rightarrow> rat \<Rightarrow> app \<Rightarrow> exn option \<times> app" where
  "on_shutdown absorbed now st =
     (let st1 = st\<lparr>stop_event := True\<rparr> in
      case bg_task st1 of
        None \<Rightarrow> (None, st1)
      | Some t \<Rightarrow>
          (let st2 = cancel_task absorbed now st1 in
           case bg_task st2 of
             Some (Done (Some e)) \<Rightarrow> (if is_Exception e then None else Some e, st2)
           | _ \<Rightarrow> (None, st2)))"

text \<open>
  The claim about shutdown in the specification's words: once \<^verbatim>\<open>stop()\<close> has returned,
  the results of the round that was in flight have been applied to the store.
\<close>

definition round_applied :: "store \<Rightarrow> store \<Rightarrow> store \<Rightarrow> bool" where
  "round_applied before results after = (after = dict_update before results)"

section \<open>Status snapshot: \<^verbatim>\<open>api_status\<close>\<close>

text \<open>Line 131: the sort key of an entry, \<^verbatim>\<open>d.get("name") or d.get("url")\<close>.\<close>

definition sort_name :: "pydict \<Rightarrow> pyval" where
  "sort_name d = py_or (dict_get d ''name'') (dict_get d ''url'')"

fun is_str :: "pyval \<Rightarrow> bool" where
  "is_str (PStr s) = True"
| "is_str _ = False"

fun str_of :: "pyval \<Rightarrow> string" where
  "str_of (PStr s) = s"
| "str_of _ = []"

fun is_num :: "pyval \<Rightarrow> bool" where
  "is_num (PBool b) = True"
| "is_num (PInt i) = True"
| "is_num (PFloat r) = True"
| "is_num _ = False"

fun rat_of :: "pyval \<Rightarrow> rat" where
  "rat_of (PBool b) = (if b then 1 else 0)"
| "rat_of (PInt i) = of_int i"
| "rat_of (PFloat r) = r"
| "rat_of _ = 0"

text \<open>
  \<^verbatim>\<open>list.sort(key=f)\<close>: a stable sort on the keys. Strings are ordered by code point,
  lexicographically; numbers by value; a string and a number cannot be compared
  (\<^verbatim>\<open>TypeError\<close>). A list of at most one entry needs no comparison. Keys that are
  sequences or mappings are reported as \<^verbatim>\<open>TypeError\<close> too (Python can order two
  sequences; no entry of the store has such a name unless the configuration names a
  service by a YAML sequence).
\<close>

definition sort_by :: "('a \<Rightarrow> pyval) \<Rightarrow> 'a list \<Rightarrow> exn + 'a list" where
  "sort_by f xs =
     (if length xs \<le> 1 then Inr xs
      else if list_all (\<lambda>x. is_str (f x)) xs then Inr (sort_key (\<lambda>x. str_of (f x)) xs)
      else if list_all (\<lambda>x. is_num (f x)) xs then Inr (sort_key (\<lambda>x. rat_of (f x)) xs)
      else Inl (TypeError ''< not supported between instances''))"

text \<open>Lines 129--131.\<close>

definition snapshot :: "store \<Rightarrow> exn + pydict list" where
  "snapshot stat =
     (let data = map snd stat;
          data = filter (\<lambda>d. truthy (dict_get d ''url'')) data
      in sort_by sort_name data)"

text \<open>Lines 127--132.\<close>

definition api_status :: "rat \<Rightarrow> app \<Rightarrow> exn + pydict" where
  "api_status now st =
     (case snapshot (status st) of
        Inl e \<Rightarrow> Inl e
      | Inr data \<Rightarrow>
          Inr [(''services'', PList (map PDict data)), (''last_updated'', PInt (py_int now))])"

text \<open>
  The ordering in the specification's words: by name ascending, entries of equal name
  by url ascending.
\<close>

fun by_name_then_url :: "pydict list \<Rightarrow> bool" where
  "by_name_then_url (d # e # ds) =
     ((str_of (dict_get d ''name'') < str_of (dict_get e ''name'') \<or>
       (str_of (dict_get d ''name'') = str_of (dict_get e ''name'') \<and>
        str_of (dict_get d ''url'') \<le> str_of (dict_get e ''url''))) \<and>
      by_name_then_url (e # ds))"
| "by_name_then_url _ = True"

section \<open>Wake orchestrator: \<^verbatim>\<open>api_wake\<close>\<close>

text \<open>
  Lines 145--149: the wake request. The default argument \<^verbatim>\<open>svc["url"]\<close> of line 146 is
  evaluated whether or not it is used. The method is passed as configured.
\<close>

definition wake_request :: "settings \<Rightarrow> pydict \<Rightarrow> exn + http_request" where
  "wake_request cfg svc =
     (case getitem svc ''url'' of
        Inl e \<Rightarrow> Inl e
      | Inr u \<Rightarrow>
          Inr \<lparr>req_method = dict_get_or svc ''wake_method'' (PStr ''GET''),
               req_url = dict_get_or svc ''wake_url'' u,
               req_timeout = dict_get_or svc ''timeout'' (PFloat (GLOBAL_TIMEOUT_SECONDS cfg)),
               req_headers = py_or (dict_get svc ''wake_headers'') (PDict []),
               req_json = dict_get svc ''wake_body''\<rparr>)"

text \<open>
  Lines 143--153, the body of the \<^verbatim>\<open>try\<close>: the wake request (the client's call \<open>0\<close>),
  then the probe (call \<open>1\<close>), then the store update and the response. The result of
  \<^verbatim>\<open>check_one\<close> always has the keys read in lines 152--153.
\<close>

definition wake_try ::
    "settings \<Rightarrow> (nat \<Rightarrow> http_request \<Rightarrow> outcome) \<Rightarrow> rat \<times> rat \<times> rat \<Rightarrow> pydict \<Rightarrow> app
       \<Rightarrow> exn + (pydict \<times> app)" where
  "wake_try cfg cl clk svc st =
     (case wake_request cfg svc of
        Inl e \<Rightarrow> Inl e
      | Inr wreq \<Rightarrow>
     (case cl 0 wreq of
        Raises e \<Rightarrow> Inl e
      | Response wake_status \<Rightarrow>
     (case check_one cfg (cl 1) svc clk of
        Inl e \<Rightarrow> Inl e
      | Inr one_status \<Rightarrow>
     (case hashable (dict_get one_status ''url'') of
        Inl e \<Rightarrow> Inl e
      | Inr k \<Rightarrow>
          Inr ([(''ok'', PBool True),
                (''wake_status'', PInt wake_status),
                (''service_ok'', dict_get one_status ''ok''),
                (''service_status'', dict_get one_status ''status_code'')],
               st\<lparr>status := setitem (status st) k one_status\<rparr>)))))"

text \<open>Lines 137--155. The result is the response or the exception, and the state.\<close>

definition api_wake ::
    "settings \<Rightarrow> (nat \<Rightarrow> http_request \<Rightarrow> outcome) \<Rightarrow> rat \<times> rat \<times> rat \<Rightarrow> string \<Rightarrow> app
       \<Rightarrow> (exn + pydict) \<times> app" where
  "api_wake cfg cl clk url st =
     (case find (\<lambda>s. py_eq (dict_get s ''url'') (PStr url)) (services st) of
        None \<Rightarrow> (Inl (HTTPException 404 ''Service not found for given URL''), st)
      | Some svc \<Rightarrow>
          if svc = [] then (Inl (HTTPException 404 ''Service not found for given URL''), st)
          else
            (case wake_try cfg cl clk svc st of
               Inr (resp, st') \<Rightarrow> (Inr resp, st')
             | Inl e \<Rightarrow>
                 if is_Exception e
                 then (Inl (HTTPException 500 (''Wake failed: '' @ exn_str e)), st)
                 else (Inl e, st)))"

section \<open>Reload: \<^verbatim>\<open>api_reload\<close>\<close>

text \<open>
  Lines 166--172. Nothing is caught: what \<^verbatim>\<open>load_services\<close> or the round raises reaches
  the caller. \<open>None\<close>: the round never returns.
\<close>

definition api_reload ::
    "settings \<Rightarrow> config_file \<Rightarrow> round_env \<Rightarrow> app \<Rightarrow> ((exn + pydict) \<times> app) option" where
  "api_reload cfg file env st =
     (case load_services cfg file of
        Inl e \<Rightarrow> Some (Inl e, st)
      | Inr svcs \<Rightarrow>
          (let st1 = st\<lparr>services := svcs\<rparr> in
           case check_all_once cfg svcs env of
             None \<Rightarrow> None
           | Some (Inl e) \<Rightarrow> Some (Inl e, st1)
           | Some (Inr results) \<Rightarrow>
               Some (Inr [(''ok'', PBool True), (''services'', PInt (int (length svcs)))],
                     st1\<lparr>status := dict_update (status st1) results\<rparr>)))"

section \<open>Reference definitions and example inputs\<close>

text \<open>
  The defaults of the loader as a table: the value that an absent key receives, and
  \<open>None\<close> for a key the loader does not set.
\<close>

definition default_of :: "settings \<Rightarrow> pydict \<Rightarrow> string \<Rightarrow> pyval option" where
  "default_of cfg s k =
     (if k = ''method'' then Some (PStr ''GET'')
      else if k = ''timeout'' then Some (PFloat (GLOBAL_TIMEOUT_SECONDS cfg))
      else if k = ''expect_status'' then Some (PInt 200)
      else if k = ''headers'' then Some (PDict [])
      else if k = ''body'' then Some PNone
      else if k = ''wake_url'' then Some (dict_get s ''url'')
      else if k = ''wake_method'' then Some (PStr ''GET'')
      else if k = ''wake_body'' then Some PNone
      else if k = ''wake_headers'' then Some (PDict [])
      else None)"


definition ex_cfg :: settings where
  "ex_cfg = \<lparr>CONFIG_PATH = ''config/services.yaml'', CHECK_INTERVAL_SECONDS = 60,
             GLOBAL_TIMEOUT_SECONDS = 8, CONCURRENCY_LIMIT = 2\<rparr>"

text \<open>A service record as the loader returns it for \<^verbatim>\<open>{url: u, method: get}\<close>.\<close>

definition ex_svc :: "string \<Rightarrow> pydict" where
  "ex_svc u =
     [(''url'', PStr u), (''method'', PStr ''get''), (''timeout'', PFloat 8),
      (''expect_status'', PInt 200), (''headers'', PDict []), (''body'', PNone),
      (''wake_url'', PStr u), (''wake_method'', PStr ''GET''), (''wake_body'', PNone),
      (''wake_headers'', PDict [])]"

text \<open>The result of a probe of a service named \<open>n\<close> at \<open>u\<close> that answered 200.\<close>

definition ex_result :: "string \<Rightarrow> string \<Rightarrow> pydict" where
  "ex_result n u =
     [(''name'', PStr n), (''url'', PStr u), (''ok'', PBool True), (''status_code'', PInt 200),
      (''latency_ms'', PInt 1000), (''checked_at'', PInt 12), (''error'', PNone),
      (''region'', PNone), (''tags'', PList []), (''expect_status'', PInt 200)]"

text \<open>The result of a probe of \<open>u\<close> whose request raised with message \<open>m\<close>.\<close>

definition ex_failure :: "string \<Rightarrow> string \<Rightarrow> pydict" where
  "ex_failure u m =
     [(''name'', PStr u), (''url'', PStr u), (''ok'', PBool False), (''status_code'', PNone),
      (''latency_ms'', PInt 1000), (''checked_at'', PInt 12), (''error'', PStr m),
      (''region'', PNone), (''tags'', PList []), (''expect_status'', PInt 200)]"

text \<open>
  A store with two services of the same name, the one at \<^verbatim>\<open>http://z\<close> stored first, and
  the sentinel entry between them.
\<close>

definition same_name_app :: app where
  "same_name_app =
     \<lparr>services = [],
      status = [(PStr ''http://z'', ex_result ''api'' ''http://z''),
                (PStr ''__error__'', sentinel ''Background loop error: '' (KeyError ''url'') 10),
                (PStr ''http://b'', ex_result ''api'' ''http://b'')],
      stop_event = False, bg_task = None\<rparr>"

definition two_names_app :: app where
  "two_names_app =
     \<lparr>services = [],
      status = [(PStr ''http://z'', ex_result ''web'' ''http://z''),
                (PStr ''__error__'', sentinel ''Background loop error: '' (KeyError ''url'') 10),
                (PStr ''http://b'', ex_result ''api'' ''http://b'')],
      stop_event = False, bg_task = None\<rparr>"

text \<open>One registered service, an empty store, the scheduler in its interval wait.\<close>

definition one_service_app :: app where
  "one_service_app =
     \<lparr>services = [ex_svc ''http://a''], status = [], stop_event = False, bg_task = Some In_wait\<rparr>"


text \<open>A client whose first call answers 200 and whose later calls are refused.\<close>

definition wake_then_refuse :: "nat \<Rightarrow> http_request \<Rightarrow> outcome" where
  "wake_then_refuse n req =
     (if n = 0 then Response 200 else Raises (RequestError ''connection refused''))"

text \<open>A round in which every request answers 200 after one second.\<close>

definition healthy_round :: round_env where
  "healthy_round = \<lparr>client = (\<lambda>i req. Response 200), clock = (\<lambda>i. (10, 11, 12)), order = [0]\<rparr>"

text \<open>One registered service, an empty store, and that round in flight.\<close>

definition mid_round_app :: app where
  "mid_round_app =
     \<lparr>services = [ex_svc ''http://a''], status = [], stop_event = False,
      bg_task = Some (In_round healthy_round)\<rparr>"

text \<open>A client whose request is refused, and one whose request is cancelled.\<close>

definition refusing_client :: "http_request \<Rightarrow> outcome" where
  "refusing_client req = Raises (RequestError ''connection refused'')"

definition cancelled_client :: "http_request \<Rightarrow> outcome" where
  "cancelled_client req = Raises CancelledError"

text \<open>
  The result of a refused probe of \<^verbatim>\<open>http://a\<close> when the clock reads 10 before the
  request and 8.75 after it.
\<close>

definition stepped_back_result :: pydict where
  "stepped_back_result =
     [(''name'', PStr ''http://a''), (''url'', PStr ''http://a''), (''ok'', PBool False),
      (''status_code'', PNone), (''latency_ms'', PInt (- 1250)), (''checked_at'', PInt 12),
      (''error'', PStr ''connection refused''), (''region'', PNone), (''tags'', PList []),
      (''expect_status'', PInt 200)]"



text \<open>The document \<^verbatim>\<open>services: [{url: http://a}]\<close>.\<close>

definition one_url_doc :: config_file where
  "one_url_doc = Parsed (PDict [(''services'', PList [PDict [(''url'', PStr ''http://a'')]])])"

text \<open>What the loader returns for the record of \<open>one_url_doc\<close>.\<close>

definition loaded_one_url :: pydict where
  "loaded_one_url =
     [(''url'', PStr ''http://a''), (''method'', PStr ''GET''), (''timeout'', PFloat 8),
      (''expect_status'', PInt 200), (''headers'', PDict []), (''body'', PNone),
      (''wake_url'', PStr ''http://a''), (''wake_method'', PStr ''GET''), (''wake_body'', PNone),
      (''wake_headers'', PDict [])]"

text \<open>
  The document \<^verbatim>\<open>services: [{name: db, url: http://b, method: post, expect_status: 204}]\<close>
  and what the loader returns for its record.
\<close>

definition named_doc :: config_file where
  "named_doc =
     Parsed (PDict [(''services'', PList [PDict
       [(''name'', PStr ''db''), (''url'', PStr ''http://b''), (''method'', PStr ''post''),
        (''expect_status'', PInt 204)]])])"

definition loaded_named :: pydict where
  "loaded_named =
     [(''name'', PStr ''db''), (''url'', PStr ''http://b''), (''method'', PStr ''post''),
      (''expect_status'', PInt 204), (''timeout'', PFloat 8), (''headers'', PDict []),
      (''body'', PNone), (''wake_url'', PStr ''http://b''), (''wake_method'', PStr ''GET''),
      (''wake_body'', PNone), (''wake_headers'', PDict [])]"

text \<open>The request of the probe of \<open>ex_svc ''http://a''\<close>.\<close>

definition ex_probe_request :: http_request where
  "ex_probe_request =
     \<lparr>req_method = PStr ''GET'', req_url = PStr ''http://a'', req_timeout = PFloat 8,
      req_headers = PDict [], req_json = PNone\<rparr>"

text \<open>A client whose every call times out.\<close>

definition always_timeout :: "nat \<Rightarrow> http_request \<Rightarrow> outcome" where
  "always_timeout n req = Raises (RequestError ''timed out'')"

section \<open>Properties of the probe executor\<close>

lemma probe_request_ServiceSpec:
  "is_ServiceSpec svc \<Longrightarrow> \<exists>req. probe_request cfg svc = Inr req"
  by (auto simp: is_ServiceSpec_def probe_request_def getitem_def upper_def
           split: option.splits pyval.splits)

lemma py_int_nonneg: "0 \<le> x \<Longrightarrow> 0 \<le> py_int x"
  by (simp add: py_int_def)

lemma py_eq_PInt: "py_eq (PInt a) (PInt b) = (a = b)"
  by (simp add: py_eq_def)

lemma py_eq_PStr [simp]: "py_eq v (PStr u) = (v = PStr u)"
  by (cases v) (auto simp: py_eq_def)

text \<open>The result of \<^verbatim>\<open>check_one\<close> once the request has been formed, for either outcome.\<close>

lemma check_one_on_response:
  assumes "probe_request cfg svc = Inr req" and "c req = Response s"
  shows "check_one cfg c svc (started, finished, now) =
     Inr [(''name'', py_or (dict_get svc ''name'') (req_url req)),
          (''url'', req_url req),
          (''ok'', PBool (py_eq (PInt s) (dict_get_or svc ''expect_status'' (PInt 200)))),
          (''status_code'', PInt s),
          (''latency_ms'', PInt (py_int ((finished - started) * 1000))),
          (''checked_at'', PInt (py_int now)),
          (''error'', PNone),
          (''region'', dict_get svc ''region''),
          (''tags'', dict_get_or svc ''tags'' (PList [])),
          (''expect_status'', dict_get_or svc ''expect_status'' (PInt 200))]"
  using assms by (simp add: check_one_def classify_def)

lemma check_one_on_failure:
  assumes "probe_request cfg svc = Inr req" and "c req = Raises e" and "is_Exception e"
  shows "check_one cfg c svc (started, finished, now) =
     Inr [(''name'', py_or (dict_get svc ''name'') (req_url req)),
          (''url'', req_url req),
          (''ok'', PBool False),
          (''status_code'', PNone),
          (''latency_ms'', PInt (py_int ((finished - started) * 1000))),
          (''checked_at'', PInt (py_int now)),
          (''error'', PStr (exn_str e)),
          (''region'', dict_get svc ''region''),
          (''tags'', dict_get_or svc ''tags'' (PList [])),
          (''expect_status'', dict_get_or svc ''expect_status'' (PInt 200))]"
  using assms by (simp add: check_one_def classify_def)

text \<open>
  C1. For every ServiceSpec, when the probe's request returns a response with status
  code \<open>s\<close>, \<^verbatim>\<open>check_one\<close> returns a result whose \<^verbatim>\<open>status_code\<close> is \<open>s\<close>, whose \<^verbatim>\<open>ok\<close> is
  \<^verbatim>\<open>s == expect_status\<close> (the configured value, 200 when none is configured) and whose
  \<^verbatim>\<open>error\<close> is \<^verbatim>\<open>None\<close>. For an integer \<^verbatim>\<open>expect_status\<close> the comparison is equality of
  integers, so a 200 answer to a spec expecting 200 gives \<^verbatim>\<open>ok = True\<close>.
\<close>

theorem check_one_response:
  assumes "is_ServiceSpec svc"
  shows "\<exists>req. probe_request cfg svc = Inr req \<and>
           (\<forall>s. c req = Response s \<longrightarrow>
              (\<exists>r. check_one cfg c svc (started, finished, now) = Inr r \<and>
                   map_of r ''status_code'' = Some (PInt s) \<and>
                   map_of r ''ok'' =
                     Some (PBool (py_eq (PInt s) (dict_get_or svc ''expect_status'' (PInt 200)))) \<and>
                   map_of r ''error'' = Some PNone \<and>
                   (\<forall>e. dict_get_or svc ''expect_status'' (PInt 200) = PInt e \<longrightarrow>
                        map_of r ''ok'' = Some (PBool (s = e)))))"
proof -
  from assms obtain req where req: "probe_request cfg svc = Inr req"
    using probe_request_ServiceSpec by blast
  have "\<exists>r. check_one cfg c svc (started, finished, now) = Inr r \<and>
             map_of r ''status_code'' = Some (PInt s) \<and>
             map_of r ''ok'' =
               Some (PBool (py_eq (PInt s) (dict_get_or svc ''expect_status'' (PInt 200)))) \<and>
             map_of r ''error'' = Some PNone \<and>
             (\<forall>e. dict_get_or svc ''expect_status'' (PInt 200) = PInt e \<longrightarrow>
                  map_of r ''ok'' = Some (PBool (s = e)))"
    if "c req = Response s" for s
    using check_one_on_response [of cfg svc req c s started finished now] req that
    by (simp add: py_eq_PInt)
  with req show ?thesis by blast
qed

theorem check_one_response_witness:
  "is_ServiceSpec (ex_svc ''http://a'') \<and>
   check_one ex_cfg (\<lambda>req. Response 200) (ex_svc ''http://a'') (10, 11, 12) =
     Inr (ex_result ''http://a'' ''http://a'') \<and>
   map_of (ex_result ''http://a'' ''http://a'') ''status_code'' = Some (PInt 200) \<and>
   map_of (ex_result ''http://a'' ''http://a'') ''ok'' = Some (PBool True) \<and>
   map_of (ex_result ''http://a'' ''http://a'') ''error'' = Some PNone"
  using check_one_response [of "ex_svc ''http://a''" ex_cfg "\<lambda>req. Response 200" 10 11 12]
  by (simp add: is_ServiceSpec_def ex_svc_def ex_result_def check_one_def probe_request_def
        classify_def getitem_def upper_def upper_char_def dict_get_def dict_get_or_def py_or_def
        py_eq_def py_int_def)

lemma refused_stepped_back:
  "check_one ex_cfg refusing_client (ex_svc ''http://a'') (10, 35 / 4, 12) = Inr stepped_back_result"
  by (simp add: ex_svc_def stepped_back_result_def refusing_client_def check_one_def
        probe_request_def classify_def getitem_def upper_def upper_char_def dict_get_def
        dict_get_or_def py_or_def py_int_def)

lemma cancelled_propagates:
  "check_one ex_cfg cancelled_client (ex_svc ''http://a'') (10, 11, 12) = Inl CancelledError"
  by (simp add: ex_svc_def cancelled_client_def check_one_def probe_request_def classify_def
        getitem_def upper_def upper_char_def dict_get_def dict_get_or_def py_or_def)

text \<open>
  C2, as stated: for every ServiceSpec \<^verbatim>\<open>check_one\<close> lets no exception out and the
  latency of a failed probe is never negative. On the ServiceSpec for \<^verbatim>\<open>http://a\<close>, a
  request that is cancelled makes \<^verbatim>\<open>check_one\<close> raise \<^verbatim>\<open>CancelledError\<close>; and a refused
  request, with the wall clock reading 10 before it and 8.75 after it, gives the
  latency \<open>-1250\<close>.
\<close>

theorem check_one_propagation_counterexample:
  "is_ServiceSpec (ex_svc ''http://a'') \<and>
   check_one ex_cfg cancelled_client (ex_svc ''http://a'') (10, 11, 12) = Inl CancelledError \<and>
   check_one ex_cfg refusing_client (ex_svc ''http://a'') (10, 35 / 4, 12) =
     Inr stepped_back_result \<and>
   map_of stepped_back_result ''latency_ms'' = Some (PInt (- 1250))"
  by (simp add: cancelled_propagates refused_stepped_back)
     (simp add: is_ServiceSpec_def ex_svc_def stepped_back_result_def)

text \<open>
  C2, amended. For every ServiceSpec, \<^verbatim>\<open>check_one\<close> returns a result when the request
  answers and when it fails with an \<^verbatim>\<open>Exception\<close> (connection, timeout, DNS, \dots); in
  the second case the result has \<^verbatim>\<open>ok = False\<close>, \<^verbatim>\<open>status_code = None\<close> and
  \<^verbatim>\<open>error = str(e)\<close>, and its latency is not negative when the second reading of the
  clock is not before the first. An exception of the request that is not an
  \<^verbatim>\<open>Exception\<close> (the cancellation of the task) is not captured: it leaves \<^verbatim>\<open>check_one\<close>.
\<close>

theorem check_one_captures_failures:
  assumes "is_ServiceSpec svc"
  shows "\<exists>req. probe_request cfg svc = Inr req \<and>
           (\<forall>s. c req = Response s \<longrightarrow>
              (\<exists>r. check_one cfg c svc (started, finished, now) = Inr r)) \<and>
           (\<forall>e. c req = Raises e \<and> is_Exception e \<longrightarrow>
              (\<exists>r. check_one cfg c svc (started, finished, now) = Inr r \<and>
                   map_of r ''ok'' = Some (PBool False) \<and>
                   map_of r ''status_code'' = Some PNone \<and>
                   map_of r ''error'' = Some (PStr (exn_str e)) \<and>
                   (started \<le> finished \<longrightarrow>
                      (\<exists>l. map_of r ''latency_ms'' = Some (PInt l) \<and> 0 \<le> l)))) \<and>
           (\<forall>e. c req = Raises e \<and> \<not> is_Exception e \<longrightarrow>
              check_one cfg c svc (started, finished, now) = Inl e)"
proof -
  from assms obtain req where req: "probe_request cfg svc = Inr req"
    using probe_request_ServiceSpec by blast
  have answers: "\<exists>r. check_one cfg c svc (started, finished, now) = Inr r"
    if "c req = Response s" for s
    using check_one_on_response [of cfg svc req c s started finished now] req that by simp
  have fails: "\<exists>r. check_one cfg c svc (started, finished, now) = Inr r \<and>
                   map_of r ''ok'' = Some (PBool False) \<and>
                   map_of r ''status_code'' = Some PNone \<and>
                   map_of r ''error'' = Some (PStr (exn_str e)) \<and>
                   (started \<le> finished \<longrightarrow>
                      (\<exists>l. map_of r ''latency_ms'' = Some (PInt l) \<and> 0 \<le> l))"
    if "c req = Raises e \<and> is_Exception e" for e
  proof -
    have "started \<le> finished \<Longrightarrow> 0 \<le> py_int ((finished - started) * 1000)"
      by (intro py_int_nonneg) simp
    with check_one_on_failure [of cfg svc req c e started finished now] req that
    show ?thesis by simp
  qed
  have passes: "check_one cfg c svc (started, finished, now) = Inl e"
    if "c req = Raises e \<and> \<not> is_Exception e" for e
    using req that by (simp add: check_one_def classify_def)
  from req answers fails passes show ?thesis by blast
qed

theorem check_one_captures_failures_witness:
  "is_ServiceSpec (ex_svc ''http://a'') \<and> (10 :: rat) \<le> 11 \<and>
   check_one ex_cfg refusing_client (ex_svc ''http://a'') (10, 11, 12) =
     Inr (ex_failure ''http://a'' ''connection refused'') \<and>
   map_of (ex_failure ''http://a'' ''connection refused'') ''ok'' = Some (PBool False) \<and>
   map_of (ex_failure ''http://a'' ''connection refused'') ''status_code'' = Some PNone \<and>
   map_of (ex_failure ''http://a'' ''connection refused'') ''error'' =
     Some (PStr ''connection refused'') \<and>
   map_of (ex_failure ''http://a'' ''connection refused'') ''latency_ms'' = Some (PInt 1000)"
  using check_one_captures_failures [of "ex_svc ''http://a''" ex_cfg refusing_client 10 11 12]
  by (simp add: is_ServiceSpec_def ex_svc_def ex_failure_def refusing_client_def check_one_def
        probe_request_def classify_def getitem_def upper_def upper_char_def dict_get_def
        dict_get_or_def py_or_def py_int_def)

section \<open>Properties of the status snapshot\<close>

lemma sorted_short: "length xs \<le> 1 \<Longrightarrow> sorted (map g xs)"
  by (cases xs) auto

text \<open>A stable sort keeps the order of the elements that a predicate finer than the key selects.\<close>

lemma filter_sort_key_refine:
  assumes "\<And>x. P x \<Longrightarrow> g x = c"
  shows "filter P (sort_key g xs) = filter P xs"
proof -
  have eq: "\<And>ys. filter P (filter (\<lambda>x. g x = c) ys) = filter P ys"
    using assms by (auto intro: filter_cong)
  have "filter P (sort_key g xs) = filter P (filter (\<lambda>x. g x = c) (sort_key g xs))"
    by (simp only: eq)
  also have "\<dots> = filter P (filter (\<lambda>x. g x = c) xs)"
    by (simp only: sort_key_stable)
  also have "\<dots> = filter P xs"
    by (simp only: eq)
  finally show ?thesis .
qed

lemma str_num_disjoint: "is_str v \<Longrightarrow> is_num v \<Longrightarrow> False"
  by (cases v) auto

lemma sort_by_Inr:
  assumes "sort_by f xs = Inr ys"
  shows "mset ys = mset xs"
    and "list_all (\<lambda>x. is_str (f x)) xs \<Longrightarrow> sorted (map (\<lambda>x. str_of (f x)) ys)"
    and "list_all (\<lambda>x. is_num (f x)) xs \<Longrightarrow> sorted (map (\<lambda>x. rat_of (f x)) ys)"
    and "filter (\<lambda>x. f x = k) ys = filter (\<lambda>x. f x = k) xs"
proof -
  consider (short) "length xs \<le> 1" "ys = xs"
    | (strs) "1 < length xs" "list_all (\<lambda>x. is_str (f x)) xs" "ys = sort_key (\<lambda>x. str_of (f x)) xs"
    | (nums) "1 < length xs" "list_all (\<lambda>x. is_num (f x)) xs" "ys = sort_key (\<lambda>x. rat_of (f x)) xs"
    using assms by (auto simp: sort_by_def split: if_splits)
  note cases = this
  show "mset ys = mset xs"
    by (rule cases) simp_all
  show "filter (\<lambda>x. f x = k) ys = filter (\<lambda>x. f x = k) xs"
  proof (rule cases)
    assume "ys = sort_key (\<lambda>x. str_of (f x)) xs"
    then show ?thesis
      using filter_sort_key_refine [of "\<lambda>x. f x = k" "\<lambda>x. str_of (f x)" "str_of k" xs] by simp
  next
    assume "ys = sort_key (\<lambda>x. rat_of (f x)) xs"
    then show ?thesis
      using filter_sort_key_refine [of "\<lambda>x. f x = k" "\<lambda>x. rat_of (f x)" "rat_of k" xs] by simp
  qed simp
  {
    assume all: "list_all (\<lambda>x. is_str (f x)) xs"
    show "sorted (map (\<lambda>x. str_of (f x)) ys)"
    proof (rule cases)
      assume "length xs \<le> 1" "ys = xs"
      then show ?thesis by (simp add: sorted_short)
    next
      assume "ys = sort_key (\<lambda>x. str_of (f x)) xs"
      then show ?thesis by simp
    next
      assume "1 < length xs" "list_all (\<lambda>x. is_num (f x)) xs"
      with all have False
        by (cases xs) (auto dest: str_num_disjoint)
      then show ?thesis ..
    qed
  }
  {
    assume all: "list_all (\<lambda>x. is_num (f x)) xs"
    show "sorted (map (\<lambda>x. rat_of (f x)) ys)"
    proof (rule cases)
      assume "length xs \<le> 1" "ys = xs"
      then show ?thesis by (simp add: sorted_short)
    next
      assume "ys = sort_key (\<lambda>x. rat_of (f x)) xs"
      then show ?thesis by simp
    next
      assume "1 < length xs" "list_all (\<lambda>x. is_str (f x)) xs"
      with all have False
        by (cases xs) (auto dest: str_num_disjoint)
      then show ?thesis ..
    qed
  }
qed

text \<open>
  C3, as stated: the snapshot is ordered by name and, among equal names, by url. It is
  not: two services named \<^verbatim>\<open>api\<close>, the one at \<^verbatim>\<open>http://z\<close> stored before the one at
  \<^verbatim>\<open>http://b\<close>, come out in that order.
\<close>

theorem snapshot_ties_counterexample:
  "api_status 20 same_name_app =
     Inr [(''services'', PList [PDict (ex_result ''api'' ''http://z''),
                                PDict (ex_result ''api'' ''http://b'')]),
          (''last_updated'', PInt 20)] \<and>
   \<not> by_name_then_url [ex_result ''api'' ''http://z'', ex_result ''api'' ''http://b'']"
  by (simp add: api_status_def snapshot_def sort_by_def sort_name_def py_or_def dict_get_def
        same_name_app_def ex_result_def sentinel_def py_int_def)

text \<open>
  C3, amended. When the sort keys \<^verbatim>\<open>name or url\<close> of the entries that carry a url are all
  strings, \<^verbatim>\<open>api_status\<close> returns. Whenever it returns, the snapshot holds exactly the
  stored entries whose \<^verbatim>\<open>url\<close> is truthy (the sentinel entry has none), each as often as
  it is stored; it is ascending in the key \<^verbatim>\<open>name or url\<close>; and entries of equal key
  keep the order they have in the store: the url does not break ties.
\<close>

theorem snapshot_sorted_stable:
  "(list_all (\<lambda>d. is_str (sort_name d))
      (filter (\<lambda>d. truthy (dict_get d ''url'')) (map snd (status st))) \<longrightarrow>
      (\<exists>resp. api_status now st = Inr resp)) \<and>
   (\<forall>resp. api_status now st = Inr resp \<longrightarrow>
      (\<exists>data. resp = [(''services'', PList (map PDict data)), (''last_updated'', PInt (py_int now))] \<and>
         mset data = mset (filter (\<lambda>d. truthy (dict_get d ''url'')) (map snd (status st))) \<and>
         (list_all (\<lambda>d. is_str (sort_name d)) data \<longrightarrow>
            sorted (map (\<lambda>d. str_of (sort_name d)) data)) \<and>
         (list_all (\<lambda>d. is_num (sort_name d)) data \<longrightarrow>
            sorted (map (\<lambda>d. rat_of (sort_name d)) data)) \<and>
         (\<forall>k. filter (\<lambda>d. sort_name d = k) data =
              filter (\<lambda>d. sort_name d = k)
                (filter (\<lambda>d. truthy (dict_get d ''url'')) (map snd (status st))))))"
proof (intro conjI impI allI)
  let ?src = "filter (\<lambda>d. truthy (dict_get d ''url'')) (map snd (status st))"
  assume "list_all (\<lambda>d. is_str (sort_name d)) ?src"
  then have "\<exists>ys. sort_by sort_name ?src = Inr ys"
    by (simp add: sort_by_def)
  then show "\<exists>resp. api_status now st = Inr resp"
    by (auto simp: api_status_def snapshot_def Let_def)
next
  let ?src = "filter (\<lambda>d. truthy (dict_get d ''url'')) (map snd (status st))"
  fix resp
  assume ret: "api_status now st = Inr resp"
  then obtain data where
    srt: "sort_by sort_name ?src = Inr data" and
    resp: "resp = [(''services'', PList (map PDict data)), (''last_updated'', PInt (py_int now))]"
    by (auto simp: api_status_def snapshot_def Let_def split: sum.splits)
  have m: "mset data = mset ?src" by (rule sort_by_Inr(1) [OF srt])
  then have s: "set data = set ?src" by (rule mset_eq_setD)
  have "list_all (\<lambda>d. is_str (sort_name d)) data \<Longrightarrow> sorted (map (\<lambda>d. str_of (sort_name d)) data)"
    using sort_by_Inr(2) [OF srt] s by (simp add: list_all_iff)
  moreover
  have "list_all (\<lambda>d. is_num (sort_name d)) data \<Longrightarrow> sorted (map (\<lambda>d. rat_of (sort_name d)) data)"
    using sort_by_Inr(3) [OF srt] s by (simp add: list_all_iff)
  moreover
  have "\<forall>k. filter (\<lambda>d. sort_name d = k) data = filter (\<lambda>d. sort_name d = k) ?src"
    using sort_by_Inr(4) [OF srt] by blast
  ultimately show "\<exists>data. resp = [(''services'', PList (map PDict data)), (''last_updated'', PInt (py_int now))] \<and>
         mset data = mset ?src \<and>
         (list_all (\<lambda>d. is_str (sort_name d)) data \<longrightarrow>
            sorted (map (\<lambda>d. str_of (sort_name d)) data)) \<and>
         (list_all (\<lambda>d. is_num (sort_name d)) data \<longrightarrow>
            sorted (map (\<lambda>d. rat_of (sort_name d)) data)) \<and>
         (\<forall>k. filter (\<lambda>d. sort_name d = k) data = filter (\<lambda>d. sort_name d = k) ?src)"
    using resp m by blast
qed

theorem snapshot_sorted_stable_witness:
  "api_status 20 two_names_app =
     Inr [(''services'', PList [PDict (ex_result ''api'' ''http://b''),
                                PDict (ex_result ''web'' ''http://z'')]),
          (''last_updated'', PInt 20)] \<and>
   sorted (map (\<lambda>d. str_of (sort_name d))
             [ex_result ''api'' ''http://b'', ex_result ''web'' ''http://z''])"
  using snapshot_sorted_stable [of two_names_app 20]
  by (simp add: api_status_def snapshot_def sort_by_def sort_name_def py_or_def dict_get_def
        two_names_app_def ex_result_def sentinel_def py_int_def)

section \<open>Properties of the admission gate\<close>

lemma count_update_to:
  "i < length ps \<Longrightarrow> ps ! i \<noteq> p \<Longrightarrow>
   length (filter (\<lambda>q. q = p) (ps[i := p])) = Suc (length (filter (\<lambda>q. q = p) ps))"
proof (induction ps arbitrary: i)
  case Nil
  then show ?case by simp
next
  case (Cons a ps)
  then show ?case by (cases i) auto
qed

lemma count_update_from:
  "i < length ps \<Longrightarrow> ps ! i = p \<Longrightarrow> q' \<noteq> p \<Longrightarrow>
   Suc (length (filter (\<lambda>q. q = p) (ps[i := q']))) = length (filter (\<lambda>q. q = p) ps)"
proof (induction ps arbitrary: i)
  case Nil
  then show ?case by simp
next
  case (Cons a ps)
  then show ?case by (cases i) auto
qed

text \<open>Every event keeps the sum of the probes in flight and the free permits.\<close>

lemma step_invariant:
  assumes "step ev g = Some g'"
  shows "in_flight g' + permits g' = in_flight g + permits g \<and> length (phases g') = length (phases g)"
proof (cases ev)
  case (Acquire i)
  with assms have i: "i < length (phases g)" "phases g ! i = Waiting" "0 < permits g"
    and g': "g' = g\<lparr>permits := permits g - 1, phases := (phases g)[i := In_flight]\<rparr>"
    by (auto split: if_splits)
  from i have "in_flight g' = Suc (in_flight g)"
    unfolding in_flight_def g' using count_update_to [of i "phases g" In_flight] by simp
  with i g' show ?thesis by simp
next
  case (Finish i out)
  with assms have i: "i < length (phases g)" "phases g ! i = In_flight"
    and g': "g' = g\<lparr>permits := permits g + 1, phases := (phases g)[i := Completed]\<rparr>"
    by (auto split: if_splits)
  from i have "Suc (in_flight g') = in_flight g"
    unfolding in_flight_def g' using count_update_from [of i "phases g" In_flight Completed] by simp
  with i g' show ?thesis by simp
qed

lemma run_invariant:
  "run evs g = Some g' \<Longrightarrow>
   in_flight g' + permits g' = in_flight g + permits g \<and> length (phases g') = length (phases g)"
proof (induction evs arbitrary: g)
  case Nil
  then show ?case by simp
next
  case (Cons ev evs)
  then obtain g1 where s: "step ev g = Some g1" and r: "run evs g1 = Some g'"
    by (auto split: option.splits)
  from step_invariant [OF s] Cons.IH [OF r] show ?case by simp
qed

lemma in_flight_replicate: "in_flight \<lparr>permits = n, phases = replicate m Waiting\<rparr> = 0"
  by (simp add: in_flight_def)

text \<open>
  C4. \<^verbatim>\<open>check_all_once\<close> creates one task per service. In every state that any
  interleaving of the tasks reaches, the number of probes in flight is at most
  \<^verbatim>\<open>CONCURRENCY_LIMIT\<close>: a probe is in flight only between the acquisition of a permit and
  its release, the release follows the probe whatever its outcome, and the probes in
  flight and the free permits always add up to the limit.
\<close>

theorem gate_never_exceeds_limit:
  assumes "launch cfg svcs = Inr g0" and "run evs g0 = Some g"
  shows "length (phases g0) = length svcs \<and>
         length (phases g) = length svcs \<and>
         in_flight g + permits g = nat (CONCURRENCY_LIMIT cfg) \<and>
         int (in_flight g) \<le> CONCURRENCY_LIMIT cfg"
proof -
  from assms(1) have c: "0 \<le> CONCURRENCY_LIMIT cfg"
    and g0: "g0 = \<lparr>permits = nat (CONCURRENCY_LIMIT cfg), phases = replicate (length svcs) Waiting\<rparr>"
    by (auto simp: launch_def split: if_splits)
  from g0 have z: "in_flight g0 = 0" "permits g0 = nat (CONCURRENCY_LIMIT cfg)"
      "length (phases g0) = length svcs"
    by (simp_all add: in_flight_replicate)
  from run_invariant [OF assms(2)] z
  have inv: "in_flight g + permits g = nat (CONCURRENCY_LIMIT cfg)" "length (phases g) = length svcs"
    by simp_all
  from inv(1) c have "int (in_flight g) \<le> CONCURRENCY_LIMIT cfg" by linarith
  with inv z show ?thesis by simp
qed

theorem gate_never_exceeds_limit_witness:
  "launch ex_cfg [ex_svc ''http://a'', ex_svc ''http://b'', ex_svc ''http://c''] =
     Inr \<lparr>permits = 2, phases = [Waiting, Waiting, Waiting]\<rparr> \<and>
   run [Acquire 0, Acquire 2, Finish 0 (Inl (KeyError ''url'')), Acquire 1]
       \<lparr>permits = 2, phases = [Waiting, Waiting, Waiting]\<rparr> =
     Some \<lparr>permits = 0, phases = [Completed, In_flight, In_flight]\<rparr> \<and>
   run [Acquire 0, Acquire 2, Acquire 1] \<lparr>permits = 2, phases = [Waiting, Waiting, Waiting]\<rparr> = None \<and>
   int (in_flight \<lparr>permits = 0, phases = [Completed, In_flight, In_flight]\<rparr>) \<le> CONCURRENCY_LIMIT ex_cfg"
  using gate_never_exceeds_limit [of ex_cfg "[ex_svc ''http://a'', ex_svc ''http://b'', ex_svc ''http://c'']"
      "\<lparr>permits = 2, phases = [Waiting, Waiting, Waiting]\<rparr>"
      "[Acquire 0, Acquire 2, Finish 0 (Inl (KeyError ''url'')), Acquire 1]"
      "\<lparr>permits = 0, phases = [Completed, In_flight, In_flight]\<rparr>"]
  by (simp add: launch_def ex_cfg_def)

section \<open>Properties of the wake orchestrator and of reload\<close>

text \<open>
  C7. When no service of the registry has the given url, \<^verbatim>\<open>api_wake\<close> raises the 404
  \<^verbatim>\<open>HTTPException\<close> and the state, the status store included, is what it was.
\<close>

theorem wake_unknown_url:
  assumes "\<forall>s \<in> set (services st). dict_get s ''url'' \<noteq> PStr url"
  shows "api_wake cfg cl clk url st =
           (Inl (HTTPException 404 ''Service not found for given URL''), st)"
proof -
  have "find (\<lambda>s. py_eq (dict_get s ''url'') (PStr url)) (services st) = None"
    using assms by (simp add: find_None_iff)
  then show ?thesis by (simp add: api_wake_def)
qed

theorem wake_unknown_url_witness:
  "services one_service_app = [ex_svc ''http://a''] \<and>
   dict_get (ex_svc ''http://a'') ''url'' = PStr ''http://a'' \<and>
   api_wake ex_cfg wake_then_refuse (10, 11, 12) ''http://unknown'' one_service_app =
     (Inl (HTTPException 404 ''Service not found for given URL''), one_service_app)"
  using wake_unknown_url [of one_service_app "''http://unknown''" ex_cfg wake_then_refuse "(10, 11, 12)"]
  by (simp add: one_service_app_def ex_svc_def dict_get_def)

text \<open>
  C10. When \<^verbatim>\<open>load_services\<close> raises, \<^verbatim>\<open>api_reload\<close> raises the same exception and the
  state (registry and status store) is what it was. A missing file and a file that the
  YAML parser rejects both make \<^verbatim>\<open>load_services\<close> raise.
\<close>

theorem reload_failure_atomic:
  "(load_services cfg file = Inl e \<longrightarrow> api_reload cfg file env st = Some (Inl e, st)) \<and>
   load_services cfg Missing = Inl (FileNotFoundError (''Config not found: '' @ CONFIG_PATH cfg)) \<and>
   load_services cfg (Malformed m) = Inl (YAMLError m)"
  by (simp add: api_reload_def load_services_def)

theorem reload_failure_atomic_witness:
  "load_services ex_cfg Missing = Inl (FileNotFoundError ''Config not found: config/services.yaml'') \<and>
   api_reload ex_cfg Missing healthy_round one_service_app =
     Some (Inl (FileNotFoundError ''Config not found: config/services.yaml''), one_service_app)"
  using reload_failure_atomic [of ex_cfg Missing
      "FileNotFoundError ''Config not found: config/services.yaml''" healthy_round one_service_app]
  by (simp add: load_services_def ex_cfg_def)

section \<open>Properties of the configuration loader\<close>

lemma map_of_setdefault:
  "map_of (setdefault d k v) k' =
     (case map_of d k' of Some x \<Rightarrow> Some x | None \<Rightarrow> if k' = k then Some v else None)"
  by (auto simp: setdefault_def map_add_def split: option.splits)

lemma dict_get_setdefault_other: "k' \<noteq> k \<Longrightarrow> dict_get (setdefault d k v) k' = dict_get d k'"
  by (simp add: dict_get_def map_of_setdefault split: option.splits)

lemma url_kept:
  "dict_get (setdefault (setdefault (setdefault (setdefault (setdefault s ''method'' a) ''timeout'' b)
      ''expect_status'' c) ''headers'' d) ''body'' e) ''url'' = dict_get s ''url''"
  by (simp add: dict_get_setdefault_other)

text \<open>The loop body of the loader against the table of defaults.\<close>

lemma map_of_apply_defaults:
  "map_of (apply_defaults cfg s) k =
     (case map_of s k of Some v \<Rightarrow> Some v | None \<Rightarrow> default_of cfg s k)"
proof (cases "map_of s k")
  case None
  then show ?thesis
    unfolding apply_defaults_def Let_def map_of_setdefault url_kept default_of_def
    by simp
next
  case (Some v)
  then show ?thesis
    unfolding apply_defaults_def Let_def map_of_setdefault
    by simp
qed

lemma default_all_map:
  "default_all cfg vs = Inr recs \<Longrightarrow>
   \<exists>origs. vs = map PDict origs \<and> recs = map (apply_defaults cfg) origs"
proof (induction vs arbitrary: recs)
  case Nil
  then show ?case by simp
next
  case (Cons v vs)
  from Cons.prems obtain d ds where v: "v = PDict d" and ds: "default_all cfg vs = Inr ds"
    and recs: "recs = apply_defaults cfg d # ds"
    by (auto split: pyval.splits sum.splits)
  from Cons.IH [OF ds] obtain origs where "vs = map PDict origs" "ds = map (apply_defaults cfg) origs"
    by blast
  with v recs have "v # vs = map PDict (d # origs) \<and> recs = map (apply_defaults cfg) (d # origs)"
    by simp
  then show ?case by (rule exI [of _ "d # origs"])
qed

text \<open>The loader on the two example documents.\<close>

lemma load_one_url: "load_services ex_cfg one_url_doc = Inr [loaded_one_url]"
  by code_simp

lemma load_named: "load_services ex_cfg named_doc = Inr [loaded_named]"
  by code_simp

text \<open>
  C9, as stated: every field, the name included, is present on every record the
  loader returns. The record of \<^verbatim>\<open>services: [{url: http://a}]\<close> comes back without a
  \<^verbatim>\<open>name\<close>.
\<close>

theorem loader_name_counterexample:
  "load_services ex_cfg one_url_doc = Inr [loaded_one_url] \<and>
   map_of loaded_one_url ''name'' = None"
  by (simp add: load_one_url loaded_one_url_def)

text \<open>
  C9, amended. Whenever \<^verbatim>\<open>load_services\<close> returns, it returns the records of the
  document in their order, each with the loop body applied once: a key among
  \<^verbatim>\<open>method\<close>, \<^verbatim>\<open>timeout\<close>, \<^verbatim>\<open>expect_status\<close>, \<^verbatim>\<open>headers\<close>, \<^verbatim>\<open>body\<close>, \<^verbatim>\<open>wake_url\<close>,
  \<^verbatim>\<open>wake_method\<close>, \<^verbatim>\<open>wake_body\<close>, \<^verbatim>\<open>wake_headers\<close> that the record lacks receives
  \<^verbatim>\<open>GET\<close>, the global timeout, 200, the empty mapping, \<^verbatim>\<open>None\<close>, the record's url,
  \<^verbatim>\<open>GET\<close>, \<^verbatim>\<open>None\<close>, the empty mapping; a key the record has keeps its value; no other
  key is added, so \<^verbatim>\<open>name\<close> is present only where the document gives it.
\<close>

theorem load_services_defaults:
  assumes "load_services cfg file = Inr recs"
  shows "\<exists>doc data origs.
           file = Parsed doc \<and> py_or doc (PDict []) = PDict data \<and>
           py_iter (dict_get_or data ''services'' (PList [])) = Inr (map PDict origs) \<and>
           recs = map (apply_defaults cfg) origs \<and>
           (\<forall>i<length origs. \<forall>k.
              map_of (recs ! i) k =
                (case map_of (origs ! i) k of Some v \<Rightarrow> Some v | None \<Rightarrow> default_of cfg (origs ! i) k)) \<and>
           (\<forall>i<length origs. map_of (recs ! i) ''name'' = map_of (origs ! i) ''name'')"
proof -
  from assms obtain doc data vs where doc: "file = Parsed doc"
    and data: "py_or doc (PDict []) = PDict data"
    and vs: "py_iter (dict_get_or data ''services'' (PList [])) = Inr vs"
    and recs: "default_all cfg vs = Inr recs"
    by (auto simp: load_services_def split: config_file.splits pyval.splits sum.splits)
  from default_all_map [OF recs] obtain origs where origs: "vs = map PDict origs"
    and r: "recs = map (apply_defaults cfg) origs"
    by blast
  have each: "\<forall>i<length origs. \<forall>k.
      map_of (recs ! i) k =
        (case map_of (origs ! i) k of Some v \<Rightarrow> Some v | None \<Rightarrow> default_of cfg (origs ! i) k)"
    using r by (simp add: map_of_apply_defaults)
  have name: "\<forall>i<length origs. map_of (recs ! i) ''name'' = map_of (origs ! i) ''name''"
    using r by (simp add: map_of_apply_defaults default_of_def split: option.splits)
  from doc data vs origs r each name show ?thesis by blast
qed

theorem load_services_defaults_witness:
  "load_services ex_cfg named_doc = Inr [loaded_named] \<and>
   map_of loaded_named ''name'' = Some (PStr ''db'') \<and>
   map_of loaded_named ''method'' = Some (PStr ''post'') \<and>
   map_of loaded_named ''expect_status'' = Some (PInt 204) \<and>
   map_of loaded_named ''wake_url'' = Some (PStr ''http://b'') \<and>
   map_of loaded_named ''wake_method'' = Some (PStr ''GET'')"
  using load_services_defaults [of ex_cfg named_doc "[loaded_named]"]
  by (simp add: load_named loaded_named_def)

section \<open>Properties of the scheduler loop and of shutdown\<close>








text \<open>
  C6, as stated: when \<^verbatim>\<open>stop()\<close> is called with a round in flight, that round is left to
  finish and \<^verbatim>\<open>stop()\<close> returns only after its results are in the store. With one
  service, an empty store and a round in flight that delivers one result,
  the store is still empty after \<^verbatim>\<open>on_shutdown\<close>, whichever way the interpreter treats a
  cancelled wait.
\<close>

lemma healthy_round_result:
  "check_all_once ex_cfg [ex_svc ''http://a''] healthy_round =
     Some (Inr [(PStr ''http://a'', ex_result ''http://a'' ''http://a'')])"
  by code_simp

lemma shutdown_mid_round:
  "snd (on_shutdown absorbed 11 mid_round_app) =
     \<lparr>services = [ex_svc ''http://a''], status = [], stop_event = True,
      bg_task = Some (Done (Some CancelledError))\<rparr>"
  by (simp add: on_shutdown_def cancel_task_def after_round_def mid_round_app_def)

theorem shutdown_round_counterexample:
  "bg_task mid_round_app = Some (In_round healthy_round) \<and>
   check_all_once ex_cfg (services mid_round_app) healthy_round =
     Some (Inr [(PStr ''http://a'', ex_result ''http://a'' ''http://a'')]) \<and>
   status (snd (on_shutdown True 11 mid_round_app)) = [] \<and>
   status (snd (on_shutdown False 11 mid_round_app)) = [] \<and>
   \<not> round_applied (status mid_round_app)
        [(PStr ''http://a'', ex_result ''http://a'' ''http://a'')]
        (status (snd (on_shutdown True 11 mid_round_app))) \<and>
   \<not> round_applied (status mid_round_app)
        [(PStr ''http://a'', ex_result ''http://a'' ''http://a'')]
        (status (snd (on_shutdown False 11 mid_round_app)))"
  by (simp add: shutdown_mid_round round_applied_def)
     (simp add: healthy_round_result mid_round_app_def)

text \<open>
  C6, amended. When \<^verbatim>\<open>on_shutdown\<close> runs with a round in flight, it sets the stop event
  and cancels the scheduler task: the task ends at the \<^verbatim>\<open>await\<close> of the round, so no later
  round starts; the registry and the store are left as they were; and whenever the
  round in flight delivers results that would change the store, those results have
  not been applied when \<^verbatim>\<open>on_shutdown\<close> is over.
\<close>

theorem shutdown_abandons_round:
  assumes "bg_task st = Some (In_round env)"
  shows "snd (on_shutdown absorbed now st) =
           st\<lparr>stop_event := True, bg_task := Some (Done (Some CancelledError))\<rparr> \<and>
         status (snd (on_shutdown absorbed now st)) = status st \<and>
         (\<forall>results. check_all_once cfg (services st) env = Some (Inr results) \<and>
                    dict_update (status st) results \<noteq> status st \<longrightarrow>
            \<not> round_applied (status st) results (status (snd (on_shutdown absorbed now st))))"
proof -
  have cancelled: "after_round (Inl CancelledError) now (st\<lparr>stop_event := True\<rparr>) = Inl CancelledError"
    by (simp add: after_round_def)
  with assms have "cancel_task absorbed now (st\<lparr>stop_event := True\<rparr>) =
      st\<lparr>stop_event := True, bg_task := Some (Done (Some CancelledError))\<rparr>"
    by (simp add: cancel_task_def)
  with assms have r: "snd (on_shutdown absorbed now st) =
      st\<lparr>stop_event := True, bg_task := Some (Done (Some CancelledError))\<rparr>"
    by (simp add: on_shutdown_def Let_def)
  then have same: "status (snd (on_shutdown absorbed now st)) = status st" by simp
  then have "\<not> round_applied (status st) results (status (snd (on_shutdown absorbed now st)))"
    if "dict_update (status st) results \<noteq> status st" for results
    using that by (auto simp: round_applied_def)
  with r same show ?thesis by blast
qed

theorem shutdown_abandons_round_witness:
  "bg_task mid_round_app = Some (In_round healthy_round) \<and>
   check_all_once ex_cfg (services mid_round_app) healthy_round =
     Some (Inr [(PStr ''http://a'', ex_result ''http://a'' ''http://a'')]) \<and>
   snd (on_shutdown True 11 mid_round_app) =
     \<lparr>services = [ex_svc ''http://a''], status = [], stop_event = True,
      bg_task = Some (Done (Some CancelledError))\<rparr>"
  using shutdown_abandons_round [of mid_round_app healthy_round True 11 ex_cfg]
  by (simp add: shutdown_mid_round)
     (simp add: healthy_round_result mid_round_app_def)

section \<open>Properties of a wake of a registered service\<close>

lemma find_registered:
  assumes "find (\<lambda>s. py_eq (dict_get s ''url'') (PStr url)) svcs = Some svc"
  shows "map_of svc ''url'' = Some (PStr url)" and "svc \<noteq> []"
proof -
  from assms have "dict_get svc ''url'' = PStr url"
    by (auto simp: find_Some_iff)
  then show "map_of svc ''url'' = Some (PStr url)"
    by (auto simp: dict_get_def split: option.splits)
  then show "svc \<noteq> []" by auto
qed

lemma check_one_url:
  assumes "check_one cfg c svc clk = Inr r" and "map_of svc ''url'' = Some u"
  shows "dict_get r ''url'' = u"
  using assms
  by (cases clk)
     (auto simp: check_one_def probe_request_def getitem_def dict_get_def
           split: sum.splits prod.splits)

lemma wake_request_registered:
  "map_of svc ''url'' = Some u \<Longrightarrow> \<exists>wreq. wake_request cfg svc = Inr wreq"
  by (simp add: wake_request_def getitem_def)

text \<open>
  C8, as stated: any failure of the follow-up probe makes \<^verbatim>\<open>wake\<close> report a failure.
  With a wake request that answers 200 and a probe request that is refused,
  \<^verbatim>\<open>api_wake\<close> returns its normal response (\<^verbatim>\<open>ok = True\<close>, \<^verbatim>\<open>service_ok = False\<close>) and
  raises nothing.
\<close>

lemma wake_then_refuse_result:
  "api_wake ex_cfg wake_then_refuse (10, 11, 12) ''http://a'' one_service_app =
     (Inr [(''ok'', PBool True), (''wake_status'', PInt 200),
           (''service_ok'', PBool False), (''service_status'', PNone)],
      \<lparr>services = [ex_svc ''http://a''],
       status = [(PStr ''http://a'', ex_failure ''http://a'' ''connection refused'')],
       stop_event = False, bg_task = Some In_wait\<rparr>)"
  by (simp add: api_wake_def wake_try_def wake_request_def check_one_def probe_request_def
        classify_def getitem_def upper_def upper_char_def dict_get_def dict_get_or_def py_or_def
        hashable_def one_service_app_def ex_svc_def ex_failure_def wake_then_refuse_def
        ex_cfg_def py_int_def)

lemma ex_probe_request_eq: "probe_request ex_cfg (ex_svc ''http://a'') = Inr ex_probe_request"
  by code_simp

theorem wake_probe_failure_counterexample:
  "probe_request ex_cfg (ex_svc ''http://a'') = Inr ex_probe_request \<and>
   wake_then_refuse 1 ex_probe_request = Raises (RequestError ''connection refused'') \<and>
   api_wake ex_cfg wake_then_refuse (10, 11, 12) ''http://a'' one_service_app =
     (Inr [(''ok'', PBool True), (''wake_status'', PInt 200),
           (''service_ok'', PBool False), (''service_status'', PNone)],
      \<lparr>services = [ex_svc ''http://a''],
       status = [(PStr ''http://a'', ex_failure ''http://a'' ''connection refused'')],
       stop_event = False, bg_task = Some In_wait\<rparr>)"
  by (simp add: wake_then_refuse_result ex_probe_request_eq wake_then_refuse_def)

text \<open>
  C8, amended. For a registered service: when the wake request raises an
  \<^verbatim>\<open>Exception\<close>, \<^verbatim>\<open>api_wake\<close> raises the 500 \<^verbatim>\<open>HTTPException\<close> \<^verbatim>\<open>Wake failed: ...\<close>, no probe
  is made and the state is what it was; so it does when \<^verbatim>\<open>check_one\<close> itself raises an
  \<^verbatim>\<open>Exception\<close>. When \<^verbatim>\<open>check_one\<close> returns a result, that result is stored under the
  service's url, nothing else in the state changes, and \<^verbatim>\<open>api_wake\<close> returns normally.
  A probe whose request fails is such a result: it has \<^verbatim>\<open>ok = False\<close> and the error
  message, and \<^verbatim>\<open>api_wake\<close> answers \<^verbatim>\<open>service_ok = False\<close> without raising.
\<close>

theorem wake_failure_reporting:
  assumes reg: "find (\<lambda>s. py_eq (dict_get s ''url'') (PStr url)) (services st) = Some svc"
  shows "\<exists>wreq. wake_request cfg svc = Inr wreq \<and>
     (\<forall>e. cl 0 wreq = Raises e \<and> is_Exception e \<longrightarrow>
        api_wake cfg cl clk url st = (Inl (HTTPException 500 (''Wake failed: '' @ exn_str e)), st)) \<and>
     (\<forall>w e. cl 0 wreq = Response w \<and> check_one cfg (cl 1) svc clk = Inl e \<and> is_Exception e \<longrightarrow>
        api_wake cfg cl clk url st = (Inl (HTTPException 500 (''Wake failed: '' @ exn_str e)), st)) \<and>
     (\<forall>w r. cl 0 wreq = Response w \<and> check_one cfg (cl 1) svc clk = Inr r \<longrightarrow>
        api_wake cfg cl clk url st =
          (Inr [(''ok'', PBool True), (''wake_status'', PInt w),
                (''service_ok'', dict_get r ''ok''), (''service_status'', dict_get r ''status_code'')],
           st\<lparr>status := setitem (status st) (PStr url) r\<rparr>)) \<and>
     (\<forall>w preq e. cl 0 wreq = Response w \<and> probe_request cfg svc = Inr preq \<and>
          cl 1 preq = Raises e \<and> is_Exception e \<longrightarrow>
        (\<exists>r. check_one cfg (cl 1) svc clk = Inr r \<and>
             map_of r ''ok'' = Some (PBool False) \<and>
             map_of r ''error'' = Some (PStr (exn_str e)) \<and>
             api_wake cfg cl clk url st =
               (Inr [(''ok'', PBool True), (''wake_status'', PInt w),
                     (''service_ok'', PBool False), (''service_status'', PNone)],
                st\<lparr>status := setitem (status st) (PStr url) r\<rparr>)))"
proof -
  note url = find_registered(1) [OF reg] and ne = find_registered(2) [OF reg]
  from wake_request_registered [OF url] obtain wreq where wreq: "wake_request cfg svc = Inr wreq"
    by blast
  have a: "api_wake cfg cl clk url st = (Inl (HTTPException 500 (''Wake failed: '' @ exn_str e)), st)"
    if "cl 0 wreq = Raises e" "is_Exception e" for e
    using that reg ne wreq by (simp add: api_wake_def wake_try_def)
  have b: "api_wake cfg cl clk url st = (Inl (HTTPException 500 (''Wake failed: '' @ exn_str e)), st)"
    if "cl 0 wreq = Response w" "check_one cfg (cl 1) svc clk = Inl e" "is_Exception e" for w e
    using that reg ne wreq by (simp add: api_wake_def wake_try_def)
  have c: "api_wake cfg cl clk url st =
          (Inr [(''ok'', PBool True), (''wake_status'', PInt w),
                (''service_ok'', dict_get r ''ok''), (''service_status'', dict_get r ''status_code'')],
           st\<lparr>status := setitem (status st) (PStr url) r\<rparr>)"
    if "cl 0 wreq = Response w" "check_one cfg (cl 1) svc clk = Inr r" for w r
    using that reg ne wreq check_one_url [OF that(2) url]
    by (simp add: api_wake_def wake_try_def hashable_def)
  have d: "\<exists>r. check_one cfg (cl 1) svc clk = Inr r \<and>
             map_of r ''ok'' = Some (PBool False) \<and>
             map_of r ''error'' = Some (PStr (exn_str e)) \<and>
             api_wake cfg cl clk url st =
               (Inr [(''ok'', PBool True), (''wake_status'', PInt w),
                     (''service_ok'', PBool False), (''service_status'', PNone)],
                st\<lparr>status := setitem (status st) (PStr url) r\<rparr>)"
    if "cl 0 wreq = Response w" "probe_request cfg svc = Inr preq" "cl 1 preq = Raises e" "is_Exception e"
    for w preq e
  proof -
    from that(2-4) obtain r where r: "check_one cfg (cl 1) svc clk = Inr r"
      and ok: "map_of r ''ok'' = Some (PBool False)"
      and sc: "map_of r ''status_code'' = Some PNone"
      and er: "map_of r ''error'' = Some (PStr (exn_str e))"
      by (cases clk) (auto simp: check_one_def classify_def)
    from c [OF that(1) r] ok sc er r show ?thesis
      by (simp add: dict_get_def)
  qed
  from wreq a b c d show ?thesis by blast
qed

lemma find_ex_svc:
  "find (\<lambda>s. py_eq (dict_get s ''url'') (PStr ''http://a'')) (services one_service_app) =
     Some (ex_svc ''http://a'')"
  by code_simp

lemma always_timeout_result:
  "api_wake ex_cfg always_timeout (10, 11, 12) ''http://a'' one_service_app =
     (Inl (HTTPException 500 ''Wake failed: timed out''), one_service_app)"
  by (simp add: api_wake_def wake_try_def wake_request_def getitem_def dict_get_def
        dict_get_or_def py_or_def one_service_app_def ex_svc_def always_timeout_def ex_cfg_def)

theorem wake_failure_reporting_witness:
  "find (\<lambda>s. py_eq (dict_get s ''url'') (PStr ''http://a'')) (services one_service_app) =
     Some (ex_svc ''http://a'') \<and>
   api_wake ex_cfg always_timeout (10, 11, 12) ''http://a'' one_service_app =
     (Inl (HTTPException 500 ''Wake failed: timed out''), one_service_app)"
  using wake_failure_reporting [of "''http://a''" one_service_app "ex_svc ''http://a''" ex_cfg
      always_timeout "(10, 11, 12)"] find_ex_svc always_timeout_result
  by simp

end
